theory Spec2Isabelle
  imports Main "HOL-Library.Char_ord" "HOL-Library.List_Lexorder" "HOL-Library.Multiset"
    "HOL-Library.Sublist"
begin

chapter \<open>Model of the sources\<close>

section \<open>Python values, exceptions and effects\<close>

text \<open>
  Values that travel through the modelled functions as Python objects of varying type
  (command-line values, \<^verbatim>\<open>None\<close>) are elements of \<open>pyval\<close>. A float is kept as
  the decimal literal it was written as: \<open>PyFloat m e\<close> is the double nearest to
  \<open>m * 10^e\<close>; no arithmetic is done on it.
\<close>

datatype pyval =
    PyNone
  | PyStr string
  | PyInt int
  | PyFloat int int
  | PyStrs "string list"
  | PyInts "int list"
  | PyBool bool

text \<open>
  The text of an exception is kept in structured form: each constructor of \<open>message\<close> is
  one f-string of the sources, with the values it interpolates as arguments.
  \<^item> \<open>UnknownLabelMode v modes\<close>:
    \<^verbatim>\<open>f"Unknown label mode {v}, expect one of {modes}"\<close>
  \<^item> \<open>InvalidPatchShape p d\<close>: \<^verbatim>\<open>f"Invalid patch_shape {p} for {d}d data."\<close>
  \<^item> \<open>InvalidNdim n\<close>: \<^verbatim>\<open>f"Invalid ndim: {n}"\<close>
  \<^item> \<open>UnknownDatasets wrong supported\<close>:
    \<^verbatim>\<open>f"Unkown datasets: {wrong}. Only {supported} are supported"\<close>; \<open>wrong\<close> is a set because
    the source builds the list from a Python set, whose order is not fixed
  \<^item> \<open>InvalidLabelChoice c\<close>: \<^verbatim>\<open>f"'{c}' is not a valid choice of labels."\<close>
  \<^item> \<open>InvalidSplit s\<close>: \<^verbatim>\<open>f"'{s}' is not a valid split."\<close>
  \<^item> \<open>PathsMissing paths\<close>: \<^verbatim>\<open>f"{paths}"\<close>
  \<^item> \<open>NoMessage\<close>: an exception raised without text
\<close>

datatype message =
    UnknownLabelMode pyval "string list"
  | InvalidPatchShape pyval int
  | InvalidNdim int
  | UnknownDatasets "string set" "string list"
  | InvalidLabelChoice string
  | InvalidSplit string
  | PathsMissing "string list"
  | NoMessage

datatype py_error =
    AttributeError string
  | ValueError message
  | RuntimeError message
  | AssertionError message
  | NotImplementedError
  | IndexError
  | TypeError
  | ZeroDivisionError
  | UnboundLocalError string
  | NameError string
  | FileNotFoundError string
  | SystemExit
  | BdbQuit

text \<open>
  A function with effects takes the state and returns the new state together with either
  the exception it raised (\<open>Inl\<close>) or its value (\<open>Inr\<close>). The state reached when an
  exception is raised is kept, so that what happened before the exception can be stated.
\<close>

type_synonym ('s, 'a) prog = "'s \<Rightarrow> 's \<times> (py_error + 'a)"

definition py_return :: "'a \<Rightarrow> ('s, 'a) prog" where
  "py_return x = (\<lambda>s. (s, Inr x))"

definition py_raise :: "py_error \<Rightarrow> ('s, 'a) prog" where
  "py_raise e = (\<lambda>s. (s, Inl e))"

definition lift :: "py_error + 'a \<Rightarrow> ('s, 'a) prog" where
  "lift r = (\<lambda>s. (s, r))"

definition then_do :: "('s, 'a) prog \<Rightarrow> ('a \<Rightarrow> ('s, 'b) prog) \<Rightarrow> ('s, 'b) prog" where
  "then_do m f = (\<lambda>s. case m s of (s', Inl e) \<Rightarrow> (s', Inl e) | (s', Inr x) \<Rightarrow> f x s')"

definition emit :: "'ev \<Rightarrow> ('ev list, unit) prog" where
  "emit ev = (\<lambda>s. (s @ [ev], Inr ()))"

text \<open>
  \<^verbatim>\<open>os.path.join\<close> on a POSIX system: a component that starts with a slash replaces what
  was joined so far; otherwise it is appended, after a slash unless the path so far is
  empty or ends with one.
\<close>

definition join2 :: "string \<Rightarrow> string \<Rightarrow> string" where
  "join2 path b =
     (if b \<noteq> [] \<and> hd b = CHR ''/'' then b
      else if path = [] \<or> last path = CHR ''/'' then path @ b
      else path @ ''/'' @ b)"

definition os_path_join :: "string \<Rightarrow> string list \<Rightarrow> string" where
  "os_path_join a ps = foldl join2 a ps"

text \<open>
  \<^verbatim>\<open>os.path.split(p)[-1]\<close> is what follows the last slash. \<^verbatim>\<open>Path(p).stem\<close> is that name
  without its last suffix, where a dot that starts or ends the name begins no suffix (for
  a path that ends in a file name, as the paths of a \<^verbatim>\<open>glob\<close> for \<^verbatim>\<open>*.jpg\<close> do).
\<close>

definition basename :: "string \<Rightarrow> string" where
  "basename p = rev (takeWhile (\<lambda>c. c \<noteq> CHR ''/'') (rev p))"

definition stem :: "string \<Rightarrow> string" where
  "stem p =
     (let name = basename p;
          after = length (takeWhile (\<lambda>c. c \<noteq> CHR ''.'') (rev name));
          i = length name - after - 1
      in if CHR ''.'' \<in> set name \<and> 0 < i \<and> i < length name - 1 then take i name else name)"

text \<open>
  \<^verbatim>\<open>s.replace(old, new)\<close>: every occurrence of \<open>old\<close> found from left to right, not
  overlapping an earlier one, becomes \<open>new\<close>. The counter of \<open>replace_from\<close> is the number
  of characters still to skip after a match. An empty \<open>old\<close> matches before every
  character and at the end.
\<close>

fun replace_from :: "string \<Rightarrow> string \<Rightarrow> nat \<Rightarrow> string \<Rightarrow> string" where
  "replace_from old new k [] = []"
| "replace_from old new (Suc k) (c # cs) = replace_from old new k cs"
| "replace_from old new 0 (c # cs) =
     (if prefix old (c # cs) then new @ replace_from old new (length old - 1) cs
      else c # replace_from old new 0 cs)"

definition str_replace :: "string \<Rightarrow> string \<Rightarrow> string \<Rightarrow> string" where
  "str_replace old new s =
     (if old = [] then new @ concat (map (\<lambda>c. c # new) s) else replace_from old new 0 s)"

text \<open>
  The file system as a script sees it: \<open>glob\<close> answers \<^verbatim>\<open>glob(pattern)\<close>, \<open>exists\<close>
  answers \<^verbatim>\<open>os.path.exists(path)\<close>, \<open>contains path key\<close> answers
  \<^verbatim>\<open>key in open_file(path, "r")\<close> and \<open>imread\<close> answers \<^verbatim>\<open>imageio.imread(path)\<close>, each for
  the files as they are when the script asks, apart from what the script itself has
  written with \<^verbatim>\<open>imageio.imwrite\<close> (see \<open>written\<close> below). An array is its shape and
  its entries in row-major order.
\<close>

datatype array = Array (arr_shape: "nat list") (arr_pixels: "int list")

record os_env =
  glob :: "string \<Rightarrow> string list"
  exists :: "string \<Rightarrow> bool"
  contains :: "string \<Rightarrow> string \<Rightarrow> bool"
  imread :: "string \<Rightarrow> array"

text \<open>
  Calls into libraries that are no part of these sources (torch, imageio, argparse, the
  dataset and loader constructors of torch_em) are represented by the value or the event
  they produce. A leading underscore of a Python name is written \<open>priv_\<close>.
\<close>

section \<open>torch_em/cli.py: the training command line\<close>

subsection \<open>Argument parser and namespace\<close>

text \<open>
  An \<open>argument\<close> is one \<^verbatim>\<open>add_argument\<close> call: its destination name, whether it is
  required, its default (\<^verbatim>\<open>None\<close> when none is given) and what \<^verbatim>\<open>type=\<close> and
  \<^verbatim>\<open>nargs="+"\<close> make of its value. A parser is the list of its arguments.
\<close>

datatype argkind = AStr | AInt | AFloat | AStrs | AInts

datatype argument = Argument (dest: string) (required: bool) (dflt: pyval) (kind: argkind)

definition priv_get_training_parser :: "string \<Rightarrow> argument list" where
  "priv_get_training_parser description =
    [Argument ''training_inputs'' True PyNone AStrs,
     Argument ''training_labels'' True PyNone AStrs,
     Argument ''training_input_key'' False PyNone AStr,
     Argument ''training_label_key'' False PyNone AStr,
     Argument ''validation_inputs'' False PyNone AStrs,
     Argument ''validation_labels'' False PyNone AStrs,
     Argument ''validation_input_key'' False PyNone AStr,
     Argument ''validation_label_key'' False PyNone AStr,
     Argument ''batch_size'' True PyNone AInt,
     Argument ''patch_shape'' True PyNone AInts,
     Argument ''n_iterations'' False (PyInt 25000) AInt,
     Argument ''label_mode'' False PyNone AStr,
     Argument ''name'' False PyNone AStr,
     Argument ''train_fraction'' False (PyFloat 8 (-1)) AFloat]"

text \<open>The parser of \<^verbatim>\<open>train_2d_unet\<close>, and that of \<^verbatim>\<open>train_3d_unet\<close>, which adds one argument.\<close>

definition train_2d_unet_parser :: "argument list" where
  "train_2d_unet_parser = priv_get_training_parser ''Train a 2D UNet.''"

definition train_3d_unet_parser :: "argument list" where
  "train_3d_unet_parser =
     priv_get_training_parser ''Train a 3D UNet.'' @ [Argument ''scale_factors'' False PyNone AStr]"

text \<open>
  A namespace holds one attribute for every argument of the parser that made it, and no
  other. \<open>given\<close> is the command line after argparse's conversion: the value handed to
  each destination, if any. argparse exits when a required argument is missing, when a
  value does not convert to the argument's type, or when a \<^verbatim>\<open>nargs="+"\<close> list is empty.
\<close>

type_synonym namespace = "(string \<times> pyval) list"

fun has_kind :: "argkind \<Rightarrow> pyval \<Rightarrow> bool" where
  "has_kind AStr (PyStr s) = True"
| "has_kind AInt (PyInt i) = True"
| "has_kind AFloat (PyFloat m e) = True"
| "has_kind AStrs (PyStrs xs) = (xs \<noteq> [])"
| "has_kind AInts (PyInts xs) = (xs \<noteq> [])"
| "has_kind _ _ = False"

definition accepts :: "(string \<Rightarrow> pyval option) \<Rightarrow> argument \<Rightarrow> bool" where
  "accepts given a =
     (case given (dest a) of None \<Rightarrow> \<not> required a | Some v \<Rightarrow> has_kind (kind a) v)"

definition parsed_value :: "(string \<Rightarrow> pyval option) \<Rightarrow> argument \<Rightarrow> pyval" where
  "parsed_value given a = (case given (dest a) of None \<Rightarrow> dflt a | Some v \<Rightarrow> v)"

definition parse_args :: "argument list \<Rightarrow> (string \<Rightarrow> pyval option) \<Rightarrow> py_error + namespace" where
  "parse_args parser given =
     (if list_all (accepts given) parser
      then Inr (map (\<lambda>a. (dest a, parsed_value given a)) parser)
      else Inl SystemExit)"

text \<open>Reading \<^verbatim>\<open>args.name\<close>: an attribute the namespace does not hold raises AttributeError.\<close>

definition getattr :: "namespace \<Rightarrow> string \<Rightarrow> py_error + pyval" where
  "getattr args name =
     (case map_of args name of None \<Rightarrow> Inl (AttributeError name) | Some v \<Rightarrow> Inr v)"

text \<open>\<^verbatim>\<open>len(v)\<close> and \<^verbatim>\<open>v[0]\<close> on a value.\<close>

fun py_len :: "pyval \<Rightarrow> py_error + nat" where
  "py_len (PyStr s) = Inr (length s)"
| "py_len (PyStrs xs) = Inr (length xs)"
| "py_len (PyInts xs) = Inr (length xs)"
| "py_len _ = Inl TypeError"

fun py_first :: "pyval \<Rightarrow> py_error + pyval" where
  "py_first (PyStr s) = (case s of [] \<Rightarrow> Inl IndexError | c # _ \<Rightarrow> Inr (PyStr [c]))"
| "py_first (PyStrs xs) = (case xs of [] \<Rightarrow> Inl IndexError | x # _ \<Rightarrow> Inr (PyStr x))"
| "py_first (PyInts xs) = (case xs of [] \<Rightarrow> Inl IndexError | x # _ \<Rightarrow> Inr (PyInt x))"
| "py_first _ = Inl TypeError"

subsection \<open>Label transforms, datasets and loaders\<close>

definition priv_get_offsets :: "int \<Rightarrow> pyval \<Rightarrow> int list list" where
  "priv_get_offsets ndim scale_factors =
     (if ndim = 2 then
        [[-1, 0], [0, -1], [-3, 0], [0, -3], [-9, 0], [0, -9], [-27, 0], [0, -27]]
      else if ndim = 3 \<and> scale_factors = PyNone then
        [[-1, 0, 0], [0, -1, 0], [0, 0, -1],
         [-3, 0, 0], [0, -3, 0], [0, 0, -3],
         [-9, 0, 0], [0, -9, 0], [0, 0, -9],
         [-27, 0, 0], [0, -27, 0], [0, 0, -27]]
      else
        [[-1, 0, 0], [0, -1, 0], [0, 0, -1],
         [-2, 0, 0], [0, -3, 0], [0, 0, -3],
         [-3, 0, 0], [0, -9, 0], [0, 0, -9],
         [-4, 0, 0], [0, -27, 0], [0, 0, -27]])"

text \<open>The label transforms of \<^verbatim>\<open>torch_em.transform.label\<close>, as the source constructs them.\<close>

datatype label_transform =
    AffinityTransform (offsets: "int list list") (add_binary_target: bool) (add_mask: bool)
  | BoundaryTransform (add_binary_target: bool)
  | labels_to_binary

datatype fraction = Fraction pyval | OneMinus pyval

datatype dataset =
    default_segmentation_dataset
      (ds_raw_paths: pyval) (ds_raw_key: pyval) (ds_label_paths: pyval) (ds_label_key: pyval)
      (ds_patch_shape: pyval) (ds_ndim: int)
      (ds_label_transform: "label_transform option") (ds_label_transform2: "label_transform option")
  | random_split dataset "fraction list" nat

datatype loader =
  get_data_loader (loader_ds: dataset) (batch_size: pyval) (shuffle: bool) (num_workers: nat)

text \<open>
  What \<^verbatim>\<open>_get_loader\<close> returns: one loader, or the pair of a training and a validation
  loader when it splits the dataset.
\<close>

datatype loaders = Single loader | Pair loader loader

text \<open>The library calls and prints of the command line, in the order they happen.\<close>

datatype printed = NoValidationData | FractionUsed pyval

datatype call =
    Call_dataset dataset
  | Call_random_split dataset "fraction list"
  | Call_loader loader
  | Call_print printed

subsection \<open>\<^verbatim>\<open>_get_loader\<close>\<close>

definition label_modes :: "string list" where
  "label_modes =
     [''affinties'', ''affinities_and_foreground'',
      ''boundaries'', ''boundaries_and_foreground'',
      ''foreground'']"

text \<open>
  The first part of \<^verbatim>\<open>_get_loader\<close> ("figure out the label transformations"). The last
  branch builds its message from \<^verbatim>\<open>args.label_model\<close> before anything is raised.
\<close>

definition select_label_transform :: "namespace \<Rightarrow> int \<Rightarrow> py_error + label_transform option" where
  "select_label_transform args ndim =
     (case getattr args ''label_mode'' of
        Inl e \<Rightarrow> Inl e
      | Inr mode \<Rightarrow>
          if mode = PyNone then Inr None
          else if mode = PyStr ''affinities'' then
            (case getattr args ''scale_factors'' of
               Inl e \<Rightarrow> Inl e
             | Inr sf \<Rightarrow> Inr (Some (AffinityTransform (priv_get_offsets ndim sf) False True)))
          else if mode = PyStr ''affinities_and_foreground'' then
            (case getattr args ''scale_factors'' of
               Inl e \<Rightarrow> Inl e
             | Inr sf \<Rightarrow> Inr (Some (AffinityTransform (priv_get_offsets ndim sf) True True)))
          else if mode = PyStr ''boundaries'' then Inr (Some (BoundaryTransform False))
          else if mode = PyStr ''boundaries_and_foreground'' then Inr (Some (BoundaryTransform True))
          else if mode = PyStr ''foreground'' then Inr (Some labels_to_binary)
          else
            (case getattr args ''label_model'' of
               Inl e \<Rightarrow> Inl e
             | Inr v \<Rightarrow> Inl (ValueError (UnknownLabelMode v label_modes))))"

text \<open>
  The second part ("validate the patch shape"). Python's \<^verbatim>\<open>and\<close> reads
  \<^verbatim>\<open>patch_shape[0]\<close> only when the length is not 2.
\<close>

definition validate_patch_shape :: "pyval \<Rightarrow> int \<Rightarrow> py_error + unit" where
  "validate_patch_shape shape ndim =
     (if ndim = 2 then
        (case py_len shape of
           Inl e \<Rightarrow> Inl e
         | Inr n \<Rightarrow>
             if n \<noteq> 2 then
               (case py_first shape of
                  Inl e \<Rightarrow> Inl e
                | Inr v \<Rightarrow>
                    if v \<noteq> PyInt 1 then Inl (ValueError (InvalidPatchShape shape 2))
                    else Inr ())
             else Inr ())
      else if ndim = 3 then
        (case py_len shape of
           Inl e \<Rightarrow> Inl e
         | Inr n \<Rightarrow>
             if n \<noteq> 3 then Inl (ValueError (InvalidPatchShape shape 3)) else Inr ())
      else Inl (RuntimeError (InvalidNdim ndim)))"

text \<open>
  \<open>n_cpus\<close> is what \<^verbatim>\<open>multiprocessing.cpu_count()\<close> returns on the machine.
\<close>

definition priv_get_loader ::
  "nat \<Rightarrow> pyval \<Rightarrow> pyval \<Rightarrow> pyval \<Rightarrow> pyval \<Rightarrow> namespace \<Rightarrow> int \<Rightarrow> bool
     \<Rightarrow> (call list, loaders) prog" where
  "priv_get_loader n_cpus input_paths input_key label_paths label_key args ndim perform_split =
     then_do (lift (select_label_transform args ndim)) (\<lambda>transform.
     then_do (lift (getattr args ''patch_shape'')) (\<lambda>shape.
     then_do (lift (validate_patch_shape shape ndim)) (\<lambda>_.
     let ds = default_segmentation_dataset input_paths input_key label_paths label_key
                shape ndim transform None in
     then_do (emit (Call_dataset ds)) (\<lambda>_.
     if perform_split then
       then_do (lift (getattr args ''train_fraction'')) (\<lambda>tf.
       let fractions = [Fraction tf, OneMinus tf] in
       then_do (emit (Call_random_split ds fractions)) (\<lambda>_.
       then_do (lift (getattr args ''batch_size'')) (\<lambda>b.
       let train_loader = get_data_loader (random_split ds fractions 0) b True n_cpus in
       then_do (emit (Call_loader train_loader)) (\<lambda>_.
       then_do (lift (getattr args ''batch_size'')) (\<lambda>b'.
       let val_loader = get_data_loader (random_split ds fractions 1) b' True n_cpus in
       then_do (emit (Call_loader val_loader)) (\<lambda>_.
       py_return (Pair train_loader val_loader)))))))
     else
       then_do (lift (getattr args ''batch_size'')) (\<lambda>b.
       let loader = get_data_loader ds b True n_cpus in
       then_do (emit (Call_loader loader)) (\<lambda>_.
       py_return (Single loader)))))))"

subsection \<open>\<^verbatim>\<open>_get_loaders\<close>\<close>

text \<open>
  Unpacking \<^verbatim>\<open>train_loader, val_loader = ...\<close> needs a pair, which \<^verbatim>\<open>_get_loader\<close>
  returns when it splits. The arguments of each call are read from the namespace from left
  to right before the call is made.
\<close>

definition priv_get_loaders :: "nat \<Rightarrow> namespace \<Rightarrow> int \<Rightarrow> (call list, loaders \<times> loaders) prog" where
  "priv_get_loaders n_cpus args ndim =
     then_do (lift (getattr args ''validation_inputs'')) (\<lambda>validation_inputs.
     if validation_inputs = PyNone then
       then_do (emit (Call_print NoValidationData)) (\<lambda>_.
       then_do (lift (getattr args ''train_fraction'')) (\<lambda>tf.
       then_do (emit (Call_print (FractionUsed tf))) (\<lambda>_.
       then_do (lift (getattr args ''training_inputs'')) (\<lambda>ti.
       then_do (lift (getattr args ''training_input_key'')) (\<lambda>tik.
       then_do (lift (getattr args ''training_labels'')) (\<lambda>tl.
       then_do (lift (getattr args ''training_label_key'')) (\<lambda>tlk.
       then_do (priv_get_loader n_cpus ti tik tl tlk args ndim True) (\<lambda>r.
       case r of
         Pair train_loader val_loader \<Rightarrow> py_return (Single train_loader, Single val_loader)
       | Single _ \<Rightarrow> py_raise TypeError))))))))
     else
       then_do (lift (getattr args ''training_inputs'')) (\<lambda>ti.
       then_do (lift (getattr args ''training_input_key'')) (\<lambda>tik.
       then_do (lift (getattr args ''training_labels'')) (\<lambda>tl.
       then_do (lift (getattr args ''training_label_key'')) (\<lambda>tlk.
       then_do (priv_get_loader n_cpus ti tik tl tlk args ndim False) (\<lambda>train_loader.
       then_do (lift (getattr args ''validation_inputs'')) (\<lambda>vi.
       then_do (lift (getattr args ''validation_key'')) (\<lambda>vk.
       then_do (lift (getattr args ''validation_labels'')) (\<lambda>vl.
       then_do (lift (getattr args ''validation_label_key'')) (\<lambda>vlk.
       then_do (priv_get_loader n_cpus vi vk vl vlk args ndim False) (\<lambda>val_loader.
       py_return (train_loader, val_loader))))))))))))"

subsection \<open>Example command lines\<close>

text \<open>
  The command line \<^verbatim>\<open>-i raw.h5 -l labels.h5 -b 1 -p <shape>\<close>, with \<^verbatim>\<open>-m <mode>\<close> and
  \<^verbatim>\<open>--validation_inputs <v> --validation_labels <v>\<close> when given, and the namespace the
  parser of \<^verbatim>\<open>train_2d_unet\<close> makes of it.
\<close>

definition example_given :: "string option \<Rightarrow> int list \<Rightarrow> string list option \<Rightarrow> string \<Rightarrow> pyval option" where
  "example_given mode shape validation =
     map_of
       ([(''training_inputs'', PyStrs [''raw.h5'']),
         (''training_labels'', PyStrs [''labels.h5'']),
         (''batch_size'', PyInt 1),
         (''patch_shape'', PyInts shape)]
        @ (case mode of None \<Rightarrow> [] | Some m \<Rightarrow> [(''label_mode'', PyStr m)])
        @ (case validation of
             None \<Rightarrow> []
           | Some v \<Rightarrow> [(''validation_inputs'', PyStrs v), (''validation_labels'', PyStrs v)]))"

definition example_args :: "string option \<Rightarrow> int list \<Rightarrow> string list option \<Rightarrow> namespace" where
  "example_args mode shape validation =
    [(''training_inputs'', PyStrs [''raw.h5'']),
     (''training_labels'', PyStrs [''labels.h5'']),
     (''training_input_key'', PyNone),
     (''training_label_key'', PyNone),
     (''validation_inputs'', case validation of None \<Rightarrow> PyNone | Some v \<Rightarrow> PyStrs v),
     (''validation_labels'', case validation of None \<Rightarrow> PyNone | Some v \<Rightarrow> PyStrs v),
     (''validation_input_key'', PyNone),
     (''validation_label_key'', PyNone),
     (''batch_size'', PyInt 1),
     (''patch_shape'', PyInts shape),
     (''n_iterations'', PyInt 25000),
     (''label_mode'', case mode of None \<Rightarrow> PyNone | Some m \<Rightarrow> PyStr m),
     (''name'', PyNone),
     (''train_fraction'', PyFloat 8 (-1))]"

section \<open>experiments/shallow2deep/em-mitochondria/train_mito_3d.py\<close>

definition DATA_ROOT :: string where
  "DATA_ROOT = ''/scratch/pape/s2d-mitochondria''"

definition DATASETS :: "string list" where
  "DATASETS = [''lucchi'', ''platy'', ''urocell'']"

text \<open>
  \<^verbatim>\<open>sorted\<close> on strings orders them by code point, character by character, as the
  lexicographic order on \<open>string\<close> does; \<open>sort\<close> is stable like \<^verbatim>\<open>sorted\<close>.
\<close>

definition normalize_datasets :: "string list \<Rightarrow> py_error + string list" where
  "normalize_datasets datasets =
     (let wrong_ds = set datasets - set DATASETS in
      if wrong_ds \<noteq> {} then Inl (ValueError (UnknownDatasets wrong_ds DATASETS))
      else Inr (sort datasets))"

text \<open>
  \<open>Normalize\<close> is \<^verbatim>\<open>torch_em.transform.raw.normalize\<close> and \<open>ForegroundTransform n\<close> is
  \<^verbatim>\<open>shallow2deep.ForegroundTransform(ndim=n)\<close>. The two preparation calls carry their
  keyword arguments in the order of the source: \<^verbatim>\<open>raw_paths\<close>, \<^verbatim>\<open>raw_key\<close>,
  \<^verbatim>\<open>label_paths\<close>, \<^verbatim>\<open>label_key\<close>, \<^verbatim>\<open>patch_shape_min\<close>, \<^verbatim>\<open>patch_shape_max\<close>,
  \<^verbatim>\<open>n_forests\<close>, \<^verbatim>\<open>n_threads\<close>, (advanced only: \<^verbatim>\<open>forests_per_stage\<close>,
  \<^verbatim>\<open>sample_fraction_per_stage\<close>,) \<^verbatim>\<open>output_folder\<close>, \<^verbatim>\<open>ndim\<close>, \<^verbatim>\<open>raw_transform\<close>,
  \<^verbatim>\<open>label_transform\<close>, \<^verbatim>\<open>is_seg_dataset\<close>, (advanced only: \<^verbatim>\<open>sampling_strategy\<close>,
  \<^verbatim>\<open>sampling_kwargs\<close>).
\<close>

datatype s2d_transform = Normalize | ForegroundTransform int

datatype mito_call =
    Makedirs string
  | Require_lucchi_data string bool
  | Require_urocell_data string bool
  | Prepare_shallow2deep
      "string list" string "string list" string
      "int list" "int list"
      pyval pyval
      string int
      s2d_transform s2d_transform
      bool
  | Prepare_shallow2deep_advanced
      "string list" string "string list" string
      "int list" "int list"
      pyval pyval
      int pyval
      string int
      s2d_transform s2d_transform
      bool string
      "(string \<times> int list) list"

fun is_prepare :: "mito_call \<Rightarrow> bool" where
  "is_prepare (Prepare_shallow2deep _ _ _ _ _ _ _ _ _ _ _ _ _) = True"
| "is_prepare (Prepare_shallow2deep_advanced _ _ _ _ _ _ _ _ _ _ _ _ _ _ _ _ _) = True"
| "is_prepare _ = False"

text \<open>
  \<^verbatim>\<open>require_ds\<close>. A dataset name that is none of the three leaves \<^verbatim>\<open>paths\<close> unassigned,
  and the \<^verbatim>\<open>return\<close> raises UnboundLocalError. \<^verbatim>\<open>paths[:-1]\<close> is \<open>butlast\<close>.
\<close>

definition require_ds :: "os_env \<Rightarrow> string \<Rightarrow> (mito_call list, string list \<times> string \<times> string) prog" where
  "require_ds env dataset =
     then_do (emit (Makedirs DATA_ROOT)) (\<lambda>_.
     let data_path = os_path_join DATA_ROOT [dataset] in
     if dataset = ''lucchi'' then
       then_do (emit (Require_lucchi_data data_path True)) (\<lambda>_.
       let paths = [os_path_join data_path [''lucchi_train.h5'']] in
       if list_all (exists env) paths then py_return (paths, ''raw'', ''labels'')
       else py_raise (AssertionError (PathsMissing paths)))
     else if dataset = ''platy'' then py_raise NotImplementedError
     else if dataset = ''urocell'' then
       then_do (emit (Require_urocell_data data_path True)) (\<lambda>_.
       let paths = glob env (os_path_join data_path [''*.h5'']);
           paths = sort paths;
           paths = filter (\<lambda>pp. contains env pp ''labels/mito'') paths;
           paths = butlast paths
       in py_return (paths, ''raw'', ''labels/mito''))
     else py_raise (UnboundLocalError ''paths''))"

text \<open>
  \<^verbatim>\<open>require_rfs_ds\<close> reads \<^verbatim>\<open>args.n_rfs\<close> and \<^verbatim>\<open>args.n_threads\<close> from the module's global
  \<^verbatim>\<open>args\<close>, which exists only when the file runs as a script: \<open>globals\<close> is that
  namespace, if any.
\<close>

definition global_attr :: "namespace option \<Rightarrow> string \<Rightarrow> py_error + pyval" where
  "global_attr globals name =
     (case globals of None \<Rightarrow> Inl (NameError ''args'') | Some args \<Rightarrow> getattr args name)"

definition out_folder :: "string \<Rightarrow> string \<Rightarrow> string" where
  "out_folder strategy dataset = os_path_join DATA_ROOT [''rfs3d-'' @ strategy, dataset]"

definition require_rfs_ds ::
  "os_env \<Rightarrow> namespace option \<Rightarrow> string \<Rightarrow> int \<Rightarrow> string \<Rightarrow> (mito_call list, unit) prog" where
  "require_rfs_ds env globals dataset n_rfs strategy =
     (let out = out_folder strategy dataset in
      then_do (emit (Makedirs out)) (\<lambda>_.
      if int (length (glob env (os_path_join out [''*.pkl'']))) = n_rfs then py_return ()
      else
        let patch_shape_min = [64, 64, 64];
            patch_shape_max = [96, 128, 128];
            raw_transform = Normalize;
            label_transform = ForegroundTransform 3
        in
        then_do (require_ds env dataset) (\<lambda>(paths, raw_key, label_key).
        if strategy = ''vanilla'' then
          then_do (lift (global_attr globals ''n_rfs'')) (\<lambda>nf.
          then_do (lift (global_attr globals ''n_threads'')) (\<lambda>nt.
          emit (Prepare_shallow2deep paths raw_key paths label_key
                  patch_shape_min patch_shape_max nf nt out 3
                  raw_transform label_transform True)))
        else
          let sampling_kwargs =
                (if strategy = ''worst_tiles'' then [(''tile_shape'', [16, 16, 16])] else [])
          in
          then_do (lift (global_attr globals ''n_rfs'')) (\<lambda>nf.
          then_do (lift (global_attr globals ''n_threads'')) (\<lambda>nt.
          emit (Prepare_shallow2deep_advanced paths raw_key paths label_key
                  patch_shape_min patch_shape_max nf nt 25 (PyFloat 5 (-2)) out 3
                  raw_transform label_transform True strategy sampling_kwargs))))))"

text \<open>
  An example: the folder of the "urocell" data holds two files with mitochondria labels,
  no forest has been written yet, and the script runs with \<^verbatim>\<open>--n_rfs 500 --n_threads 32\<close>.
\<close>

definition example_env :: os_env where
  "example_env =
     \<lparr>glob = (\<lambda>pattern.
         if pattern = ''/scratch/pape/s2d-mitochondria/urocell/*.h5''
         then [''/scratch/pape/s2d-mitochondria/urocell/fib1-0-0-0.h5'',
               ''/scratch/pape/s2d-mitochondria/urocell/fib1-1-0-3.h5'']
         else []),
      exists = (\<lambda>path. True),
      contains = (\<lambda>path key. True),
      imread = (\<lambda>path. Array [] [])\<rparr>"

definition example_globals :: "namespace option" where
  "example_globals = Some [(''n_rfs'', PyInt 500), (''n_threads'', PyInt 32)]"

section \<open>torch_em/self_training/logger.py\<close>

text \<open>
  Tensors and scalars are opaque (\<open>'t\<close> and \<open>'v\<close>). \<open>First x\<close> is \<^verbatim>\<open>x[0]\<close> and
  \<open>NormalizedFirst x\<close> is \<^verbatim>\<open>torch_em.transform.raw.normalize(x[0])\<close>; \<open>make_grid\<close> keeps the
  images, \<^verbatim>\<open>nrow\<close> when it is passed, and \<^verbatim>\<open>padding\<close>. The state is the list of what was
  added to the tensorboard writer \<^verbatim>\<open>self.tb\<close>, each with its \<^verbatim>\<open>tag\<close>, its value
  (\<^verbatim>\<open>scalar_value\<close> or \<^verbatim>\<open>img_tensor\<close>) and its \<^verbatim>\<open>global_step\<close>.
\<close>

datatype 't image = First 't | NormalizedFirst 't

datatype 't grid = make_grid "'t image list" "nat option" nat

datatype ('v, 't) tb_event =
    Add_scalar string 'v int
  | Add_image string "'t grid" int

fun is_image :: "('v, 't) tb_event \<Rightarrow> bool" where
  "is_image (Add_image _ _ _) = True"
| "is_image (Add_scalar _ _ _) = False"

definition priv_add_supervised_images ::
  "int \<Rightarrow> string \<Rightarrow> 't \<Rightarrow> 't \<Rightarrow> 't \<Rightarrow> (('v, 't) tb_event list, unit) prog" where
  "priv_add_supervised_images step name x y pred =
     (let grid = make_grid [NormalizedFirst x, First y, First pred] None 8 in
      emit (Add_image (name @ ''/supervised/input-labels-prediction'') grid step))"

definition priv_add_unsupervised_images ::
  "int \<Rightarrow> string \<Rightarrow> 't \<Rightarrow> 't \<Rightarrow> 't \<Rightarrow> 't \<Rightarrow> 't option \<Rightarrow> (('v, 't) tb_event list, unit) prog" where
  "priv_add_unsupervised_images step name x1 x2 pred pseudo_labels label_filter =
     (let images = [NormalizedFirst x1, NormalizedFirst x2, First pred, First pseudo_labels];
          im_name = name @ ''/unsupervised/aug1-aug2-prediction-pseudolabels'';
          images = (case label_filter of None \<Rightarrow> images | Some f \<Rightarrow> images @ [First f]);
          grid = make_grid images (Some 2) 8
      in emit (Add_image im_name grid step))"

text \<open>\<^verbatim>\<open>step % self.log_image_interval == 0\<close> on integers; a zero interval raises.\<close>

definition divisible :: "int \<Rightarrow> int \<Rightarrow> py_error + bool" where
  "divisible step interval =
     (if interval = 0 then Inl ZeroDivisionError else Inr (step mod interval = 0))"

definition log_train_supervised ::
  "int \<Rightarrow> int \<Rightarrow> 'v \<Rightarrow> 't \<Rightarrow> 't \<Rightarrow> 't \<Rightarrow> (('v, 't) tb_event list, unit) prog" where
  "log_train_supervised log_image_interval step loss x y pred =
     then_do (emit (Add_scalar ''train/supervised/loss'' loss step)) (\<lambda>_.
     then_do (lift (divisible step log_image_interval)) (\<lambda>d.
     if d then priv_add_supervised_images step ''validation'' x y pred
     else py_return ()))"

definition log_validation_supervised ::
  "int \<Rightarrow> int \<Rightarrow> 'v \<Rightarrow> 'v \<Rightarrow> 't \<Rightarrow> 't \<Rightarrow> 't \<Rightarrow> (('v, 't) tb_event list, unit) prog" where
  "log_validation_supervised log_image_interval step metric loss x y pred =
     then_do (emit (Add_scalar ''validation/supervised/loss'' loss step)) (\<lambda>_.
     then_do (emit (Add_scalar ''validation/supervised/metric'' metric step)) (\<lambda>_.
     priv_add_supervised_images step ''validation'' x y pred))"

definition log_train_unsupervised ::
  "int \<Rightarrow> int \<Rightarrow> 'v \<Rightarrow> 't \<Rightarrow> 't \<Rightarrow> 't \<Rightarrow> 't \<Rightarrow> 't option \<Rightarrow> (('v, 't) tb_event list, unit) prog" where
  "log_train_unsupervised log_image_interval step loss x1 x2 pred pseudo_labels label_filter =
     then_do (emit (Add_scalar ''train/unsupervised/loss'' loss step)) (\<lambda>_.
     then_do (lift (divisible step log_image_interval)) (\<lambda>d.
     if d then priv_add_unsupervised_images step ''validation'' x1 x2 pred pseudo_labels label_filter
     else py_return ()))"

definition log_validation_unsupervised ::
  "int \<Rightarrow> int \<Rightarrow> 'v \<Rightarrow> 'v \<Rightarrow> 't \<Rightarrow> 't \<Rightarrow> 't \<Rightarrow> 't \<Rightarrow> 't option \<Rightarrow> (('v, 't) tb_event list, unit) prog" where
  "log_validation_unsupervised log_image_interval step metric loss x1 x2 pred pseudo_labels label_filter =
     then_do (emit (Add_scalar ''validation/unsupervised/loss'' loss step)) (\<lambda>_.
     then_do (emit (Add_scalar ''validation/unsupervised/metric'' metric step)) (\<lambda>_.
     priv_add_unsupervised_images step ''validation'' x1 x2 pred pseudo_labels label_filter))"

section \<open>torch_em/data/datasets/medical: shared events\<close>

text \<open>
  The library calls of the two dataset modules, in the order they happen. \<open>'c\<close> is what
  is written to an image file and \<open>'k\<close> the keyword arguments handed through to the dataset.
  \<open>Image_dataset raw_paths label_paths patch_shape is_seg_dataset kwargs\<close> is
  \<^verbatim>\<open>torch_em.default_segmentation_dataset(raw_paths=.., raw_key=None, label_paths=..,
  label_key=None, patch_shape=.., is_seg_dataset=.., **kwargs)\<close>.
\<close>

datatype 'k image_dataset = Image_dataset "string list" "string list" pyval bool 'k

datatype ('c, 'k) io_call =
    Os_makedirs string
  | Download_source_kaggle string string bool
  | Download_source string string bool string
  | Unzip string string
  | Rmtree string
  | Imread string
  | Imwrite string 'c
  | Print_mismatch
  | Print_counts nat nat
  | Breakpoint
  | Build_dataset "'k image_dataset"

text \<open>
  What the calls so far have written to each path, and with it the answers of
  \<^verbatim>\<open>os.path.exists\<close> and \<^verbatim>\<open>imageio.imread\<close> after these calls.
\<close>

fun write_step :: "(string \<rightharpoonup> 'c) \<Rightarrow> ('c, 'k) io_call \<Rightarrow> (string \<rightharpoonup> 'c)" where
  "write_step m (Imwrite q c) = m(q \<mapsto> c)"
| "write_step m _ = m"

definition written :: "('c, 'k) io_call list \<Rightarrow> (string \<rightharpoonup> 'c)" where
  "written log = foldl write_step Map.empty log"

definition exists_now :: "os_env \<Rightarrow> ('c, 'k) io_call list \<Rightarrow> string \<Rightarrow> bool" where
  "exists_now env log p = (exists env p \<or> written log p \<noteq> None)"

fun is_write_to :: "string \<Rightarrow> ('c, 'k) io_call \<Rightarrow> bool" where
  "is_write_to p (Imwrite q c) = (q = p)"
| "is_write_to p _ = False"

fun is_build :: "('c, 'k) io_call \<Rightarrow> bool" where
  "is_build (Build_dataset d) = True"
| "is_build _ = False"

section \<open>torch_em/data/datasets/medical/m2caiseg.py\<close>

text \<open>
  What is written for a pair: \<open>Image_of p\<close> is the array read from \<open>p\<close>, and
  \<open>Instances_of p\<close> the label image that the loop over \<^verbatim>\<open>LABEL_MAPS\<close> computes from the
  array read from \<open>p\<close>.
\<close>

datatype m2_content = Image_of string | Instances_of string

definition get_m2caiseg_data :: "os_env \<Rightarrow> string \<Rightarrow> bool \<Rightarrow> ((m2_content, 'k) io_call list, string) prog" where
  "get_m2caiseg_data env path download =
     then_do (emit (Os_makedirs path)) (\<lambda>_.
     let data_dir = os_path_join path [''m2caiSeg dataset''] in
     if exists env data_dir then py_return data_dir
     else
       then_do (emit (Download_source_kaggle path ''salmanmaq/m2caiseg'' download)) (\<lambda>_.
       let zip_path = os_path_join path [''m2caiseg.zip''] in
       then_do (emit (Unzip zip_path path)) (\<lambda>_.
       py_return data_dir)))"

text \<open>
  The loop over \<^verbatim>\<open>zip(image_paths, gt_paths)\<close>, with the two result lists as accumulator.
\<close>

fun m2caiseg_pairs ::
  "os_env \<Rightarrow> string \<Rightarrow> string \<Rightarrow> (string \<times> string) list \<Rightarrow> string list \<times> string list
     \<Rightarrow> ((m2_content, 'k) io_call list, string list \<times> string list) prog" where
  "m2caiseg_pairs env images_dir mask_dir [] acc = py_return acc"
| "m2caiseg_pairs env images_dir mask_dir ((image_path, gt_path) # rest) acc =
     then_do (emit (Imread image_path)) (\<lambda>_.
     then_do (emit (Imread gt_path)) (\<lambda>_.
     let image_id = stem image_path;
         gt_id = stem gt_path
     in
     if arr_shape (imread env image_path) \<noteq> arr_shape (imread env gt_path) then
       then_do (emit Print_mismatch) (\<lambda>_.
       m2caiseg_pairs env images_dir mask_dir rest acc)
     else
       let dst_image_path = os_path_join images_dir [image_id @ ''.tif''];
           dst_gt_path = os_path_join mask_dir [gt_id @ ''.tif''];
           acc' = (fst acc @ [image_path], snd acc @ [dst_gt_path])
       in
       (\<lambda>s. if exists_now env s dst_gt_path \<and> exists_now env s dst_image_path
            then m2caiseg_pairs env images_dir mask_dir rest acc' s
            else
              then_do (emit (Imwrite dst_image_path (Image_of image_path))) (\<lambda>_.
              then_do (emit (Imwrite dst_gt_path (Instances_of gt_path))) (\<lambda>_.
              m2caiseg_pairs env images_dir mask_dir rest acc')) s)))"

text \<open>
  \<open>natsorted\<close> is the function of that name of the natsort library. \<open>split_paths\<close> is
  the first part of \<^verbatim>\<open>_get_m2caiseg_paths\<close>: the image and ground-truth paths of the split.
\<close>

definition split_paths ::
  "os_env \<Rightarrow> (string list \<Rightarrow> string list) \<Rightarrow> string \<Rightarrow> string \<Rightarrow> string list \<times> string list" where
  "split_paths env natsorted data_dir split =
     (if split = ''val'' then
        let impaths = natsorted (glob env (os_path_join data_dir [''train'', ''images'', ''*.jpg'']));
            gpaths = natsorted (glob env (os_path_join data_dir [''train'', ''groundtruth'', ''*.png'']));
            imids = map basename impaths;
            gids = map basename gpaths
        in (filter (\<lambda>p. basename p \<notin> set imids)
              (natsorted (glob env (os_path_join data_dir [''trainval'', ''images'', ''*.jpg'']))),
            filter (\<lambda>p. basename p \<notin> set gids)
              (natsorted (glob env (os_path_join data_dir [''trainval'', ''groundtruth'', ''*.png'']))))
      else
        (natsorted (glob env (os_path_join data_dir [split, ''images'', ''*.jpg''])),
         natsorted (glob env (os_path_join data_dir [split, ''groundtruth'', ''*.png'']))))"

definition priv_get_m2caiseg_paths ::
  "os_env \<Rightarrow> (string list \<Rightarrow> string list) \<Rightarrow> string \<Rightarrow> string \<Rightarrow> bool
     \<Rightarrow> ((m2_content, 'k) io_call list, string list \<times> string list) prog" where
  "priv_get_m2caiseg_paths env natsorted path split download =
     then_do (get_m2caiseg_data env path download) (\<lambda>data_dir.
     let (image_paths, gt_paths) = split_paths env natsorted data_dir split;
         images_dir = os_path_join data_dir [''preprocessed'', ''images''];
         mask_dir = os_path_join data_dir [''preprocessed_masks'']
     in
     then_do (emit (Os_makedirs images_dir)) (\<lambda>_.
     then_do (emit (Os_makedirs mask_dir)) (\<lambda>_.
     m2caiseg_pairs env images_dir mask_dir (zip image_paths gt_paths) ([], []))))"

text \<open>
  \<open>update_kwargs_for_resize_trafo\<close> is the function of that name of the dataset utilities,
  which returns the new keyword arguments and patch shape.
\<close>

definition get_m2caiseg_dataset ::
  "os_env \<Rightarrow> (string list \<Rightarrow> string list)
     \<Rightarrow> ('k \<Rightarrow> pyval \<Rightarrow> bool \<Rightarrow> (string \<times> pyval) list \<Rightarrow> 'k \<times> pyval)
     \<Rightarrow> string \<Rightarrow> string \<Rightarrow> pyval \<Rightarrow> bool \<Rightarrow> bool \<Rightarrow> 'k
     \<Rightarrow> ((m2_content, 'k) io_call list, 'k image_dataset) prog" where
  "get_m2caiseg_dataset env natsorted update_kwargs_for_resize_trafo
       path split patch_shape resize_inputs download kwargs =
     (if split \<notin> set [''train'', ''val'', ''test''] then py_raise (AssertionError NoMessage)
      else
        then_do (priv_get_m2caiseg_paths env natsorted path split download) (\<lambda>(image_paths, gt_paths).
        then_do (emit (Print_counts (length image_paths) (length gt_paths))) (\<lambda>_.
        then_do (emit Breakpoint) (\<lambda>_.
        let (kwargs, patch_shape) =
              (if resize_inputs then
                 let resize_kwargs = [(''patch_shape'', patch_shape), (''is_rgb'', PyBool True)]
                 in update_kwargs_for_resize_trafo kwargs patch_shape resize_inputs resize_kwargs
               else (kwargs, patch_shape));
            dataset = Image_dataset image_paths gt_paths patch_shape False kwargs
        in
        then_do (emit (Build_dataset dataset)) (\<lambda>_.
        py_return dataset)))))"

text \<open>
  An example: the data is in place under \<^verbatim>\<open>/data\<close>, the "train" folder holds one image
  and its ground truth, both 4 by 6 pixels with 3 channels, and nothing is preprocessed yet.
\<close>

definition example_m2_env :: os_env where
  "example_m2_env =
     \<lparr>glob = (\<lambda>pattern.
         if pattern = ''/data/m2caiSeg dataset/train/images/*.jpg''
         then [''/data/m2caiSeg dataset/train/images/a.jpg'']
         else if pattern = ''/data/m2caiSeg dataset/train/groundtruth/*.png''
         then [''/data/m2caiSeg dataset/train/groundtruth/a.png'']
         else []),
      exists = (\<lambda>path. path = ''/data/m2caiSeg dataset''),
      contains = (\<lambda>path key. False),
      imread = (\<lambda>path. Array [4, 6, 3] (replicate 72 0))\<rparr>"

section \<open>torch_em/data/datasets/medical/palm.py\<close>

definition URL :: string where
  "URL = ''https://springernature.figshare.com/ndownloader/files/37786152''"

definition CHECKSUM :: string where
  "CHECKSUM = ''21cd568a00a50287370572ea81b50847085819bd2f732331ee9cdc6367e6cd1f''"

definition get_palm_data :: "os_env \<Rightarrow> string \<Rightarrow> bool \<Rightarrow> ((array, 'k) io_call list, string) prog" where
  "get_palm_data env path download =
     (let data_dir = os_path_join path [''PALM''] in
      (\<lambda>s. if exists_now env s data_dir then py_return data_dir s
          else
            (then_do (emit (Os_makedirs path)) (\<lambda>_.
             let zip_path = os_path_join path [''data.zip''] in
             then_do (emit (Download_source zip_path URL download CHECKSUM)) (\<lambda>_.
             then_do (emit (Unzip zip_path path)) (\<lambda>_.
             then_do (emit (Rmtree (os_path_join path [''__MACOSX'']))) (\<lambda>_.
             py_return data_dir))))) s))"

text \<open>\<^verbatim>\<open>(label == 0).astype(int)\<close>: entry by entry, in the shape of the label.\<close>

definition eq_zero_as_int :: "array \<Rightarrow> array" where
  "eq_zero_as_int label =
     Array (arr_shape label) (map (\<lambda>v. if v = 0 then 1 else 0) (arr_pixels label))"

text \<open>What \<^verbatim>\<open>imageio.imread(path)\<close> returns after the calls of the log.\<close>

definition read_now :: "os_env \<Rightarrow> (array, 'k) io_call list \<Rightarrow> string \<Rightarrow> array" where
  "read_now env log p = (case written log p of Some a \<Rightarrow> a | None \<Rightarrow> imread env p)"

definition neu_label_path :: "string \<Rightarrow> string" where
  "neu_label_path p = str_replace ''.bmp'' ''_preprocessed.tif'' p"

text \<open>The loop of \<^verbatim>\<open>_preprocess_labels\<close> over \<^verbatim>\<open>zip(label_paths, neu_label_paths)\<close>.\<close>

fun preprocess_pairs :: "os_env \<Rightarrow> (string \<times> string) list \<Rightarrow> ((array, 'k) io_call list, unit) prog" where
  "preprocess_pairs env [] = py_return ()"
| "preprocess_pairs env ((lpath, neu_lpath) # rest) =
     (\<lambda>s. if exists_now env s neu_lpath then preprocess_pairs env rest s
          else
            (let label = read_now env s lpath in
             then_do (emit (Imread lpath)) (\<lambda>_.
             then_do (emit (Imwrite neu_lpath (eq_zero_as_int label))) (\<lambda>_.
             preprocess_pairs env rest))) s)"

definition priv_preprocess_labels ::
  "os_env \<Rightarrow> string list \<Rightarrow> ((array, 'k) io_call list, string list) prog" where
  "priv_preprocess_labels env label_paths =
     (let neu_label_paths = map neu_label_path label_paths in
      then_do (preprocess_pairs env (zip label_paths neu_label_paths)) (\<lambda>_.
      py_return neu_label_paths))"

definition get_palm_paths ::
  "os_env \<Rightarrow> (string list \<Rightarrow> string list) \<Rightarrow> string \<Rightarrow> string \<Rightarrow> string \<Rightarrow> bool
     \<Rightarrow> ((array, 'k) io_call list, string list \<times> string list) prog" where
  "get_palm_paths env natsorted path split label_choice download =
     then_do (get_palm_data env path download) (\<lambda>data_dir.
     if split \<notin> set [''Training'', ''Validation'', ''Testing'']
     then py_raise (AssertionError (InvalidSplit split))
     else
       then_do
         (if label_choice = ''disc'' then py_return ''Disc Masks''
          else if label_choice = ''atrophy_lesion'' then py_return ''Lesion Masks/Atrophy''
          else if label_choice = ''detachment_lesion'' then py_return ''Lesion Masks/Detachment''
          else py_raise (ValueError (InvalidLabelChoice label_choice))) (\<lambda>ldir.
       let label_paths = natsorted (glob env (os_path_join data_dir [split, ldir, ''*.bmp''])) in
       then_do (priv_preprocess_labels env label_paths) (\<lambda>label_paths.
       let raw_paths = map (str_replace ldir ''Images'') label_paths;
           raw_paths = map (str_replace ''_preprocessed.tif'' ''.jpg'') raw_paths
       in
       if length label_paths \<noteq> length raw_paths then py_raise (AssertionError NoMessage)
       else py_return (raw_paths, label_paths))))"

chapter \<open>Properties\<close>

section \<open>Effects\<close>

lemma then_do_lift_Inl: "then_do (lift (Inl e)) f s = (s, Inl e)"
  by (simp add: then_do_def lift_def)

lemma then_do_lift_Inr: "then_do (lift (Inr x)) f s = f x s"
  by (simp add: then_do_def lift_def)

lemma then_do_emit: "then_do (emit ev) f s = f () (s @ [ev])"
  by (simp add: then_do_def emit_def)

lemma then_do_raise: "then_do (py_raise e) f s = (s, Inl e)"
  by (simp add: then_do_def py_raise_def)

lemma then_do_return: "then_do (py_return x) f s = f x s"
  by (simp add: then_do_def py_return_def)

lemma py_raise_apply: "py_raise e s = (s, Inl e)"
  by (simp add: py_raise_def)

lemma py_return_apply: "py_return x s = (s, Inr x)"
  by (simp add: py_return_def)

lemma emit_apply: "emit ev s = (s @ [ev], Inr ())"
  by (simp add: emit_def)

lemma lift_apply: "lift r s = (s, r)"
  by (simp add: lift_def)

lemmas prog_simps =
  then_do_lift_Inl then_do_lift_Inr then_do_emit then_do_raise then_do_return
  py_raise_apply py_return_apply emit_apply lift_apply

section \<open>The training command line\<close>


lemma getattr_map:
  "getattr (map (\<lambda>a. (dest a, parsed_value given a)) p) k =
     (case find (\<lambda>a. dest a = k) p of
        None \<Rightarrow> Inl (AttributeError k)
      | Some a \<Rightarrow> Inr (parsed_value given a))"
  by (induction p) (auto simp: getattr_def)

lemma parse_args_Inr:
  assumes "parse_args p given = Inr args"
  shows "args = map (\<lambda>a. (dest a, parsed_value given a)) p" and "list_all (accepts given) p"
  using assms by (auto simp: parse_args_def split: if_splits)

lemma getattr_parsed:
  assumes "parse_args p given = Inr args"
  shows "getattr args k =
     (case find (\<lambda>a. dest a = k) p of
        None \<Rightarrow> Inl (AttributeError k)
      | Some a \<Rightarrow> Inr (parsed_value given a))"
  using parse_args_Inr(1)[OF assms] by (simp add: getattr_map)

lemmas training_parser_defs =
  train_2d_unet_parser_def train_3d_unet_parser_def priv_get_training_parser_def

lemma has_kind_AInts: "has_kind AInts v \<Longrightarrow> \<exists>xs. v = PyInts xs \<and> xs \<noteq> []"
  by (cases v) auto

lemma parsed_patch_shape:
  assumes "parse_args p given = Inr args" "p = train_2d_unet_parser \<or> p = train_3d_unet_parser"
  shows "\<exists>xs. getattr args ''patch_shape'' = Inr (PyInts xs) \<and> xs \<noteq> []"
proof -
  have a: "accepts given (Argument ''patch_shape'' True PyNone AInts)"
    using parse_args_Inr(2)[OF assms(1)] assms(2)
    by (auto simp: training_parser_defs)
  then obtain v where v: "given ''patch_shape'' = Some v" "has_kind AInts v"
    by (auto simp: accepts_def split: option.splits)
  have "getattr args ''patch_shape'' = Inr v"
    using assms(2) v(1)
    by (auto simp: getattr_parsed[OF assms(1)] parsed_value_def training_parser_defs)
  with has_kind_AInts[OF v(2)] show ?thesis by auto
qed

lemma parsed_undefined:
  assumes "parse_args p given = Inr args" "p = train_2d_unet_parser \<or> p = train_3d_unet_parser"
  shows "getattr args ''label_model'' = Inl (AttributeError ''label_model'')"
    and "getattr args ''validation_key'' = Inl (AttributeError ''validation_key'')"
  using assms(2)
  by (auto simp: getattr_parsed[OF assms(1)] parsed_value_def training_parser_defs)

lemma parsed_defined:
  assumes "parse_args p given = Inr args" "p = train_2d_unet_parser \<or> p = train_3d_unet_parser"
  shows "\<exists>v. getattr args ''batch_size'' = Inr v"
    and "\<exists>v. getattr args ''train_fraction'' = Inr v"
    and "\<exists>v. getattr args ''validation_inputs'' = Inr v"
    and "\<exists>v. getattr args ''validation_labels'' = Inr v"
    and "\<exists>v. getattr args ''validation_label_key'' = Inr v"
    and "\<exists>v. getattr args ''training_inputs'' = Inr v"
    and "\<exists>v. getattr args ''training_input_key'' = Inr v"
    and "\<exists>v. getattr args ''training_labels'' = Inr v"
    and "\<exists>v. getattr args ''training_label_key'' = Inr v"
    and "\<exists>v. getattr args ''label_mode'' = Inr v"
  using assms(2)
  by (auto simp: getattr_parsed[OF assms(1)] training_parser_defs)

lemma validate_patch_shape_ints:
  assumes "shape \<noteq> []"
  shows "validate_patch_shape (PyInts shape) ndim =
     (if ndim = 2 then
        (if length shape \<noteq> 2 \<and> hd shape \<noteq> 1
         then Inl (ValueError (InvalidPatchShape (PyInts shape) 2)) else Inr ())
      else if ndim = 3 then
        (if length shape \<noteq> 3
         then Inl (ValueError (InvalidPatchShape (PyInts shape) 3)) else Inr ())
      else Inl (RuntimeError (InvalidNdim ndim)))"
  using assms by (cases shape) (auto simp: validate_patch_shape_def)

text \<open>What \<^verbatim>\<open>_get_loader\<close> does once the label transform is chosen and the shape is read.\<close>

lemma priv_get_loader_after_mode:
  assumes "select_label_transform args ndim = Inr t"
      and "getattr args ''patch_shape'' = Inr shape"
      and "getattr args ''batch_size'' = Inr b"
      and "getattr args ''train_fraction'' = Inr tf"
  shows "priv_get_loader n ip ik lp lk args ndim split s =
    (case validate_patch_shape shape ndim of
       Inl e \<Rightarrow> (s, Inl e)
     | Inr _ \<Rightarrow>
        (let ds = default_segmentation_dataset ip ik lp lk shape ndim t None;
             fr = [Fraction tf, OneMinus tf];
             l0 = get_data_loader (random_split ds fr 0) b True n;
             l1 = get_data_loader (random_split ds fr 1) b True n;
             l = get_data_loader ds b True n
         in if split
            then (s @ [Call_dataset ds, Call_random_split ds fr, Call_loader l0, Call_loader l1],
                  Inr (Pair l0 l1))
            else (s @ [Call_dataset ds, Call_loader l], Inr (Single l))))"
  using assms
  by (cases "validate_patch_shape shape ndim")
     (simp_all add: priv_get_loader_def prog_simps Let_def py_return_def)

lemma priv_get_loader_mode_error:
  assumes "select_label_transform args ndim = Inl e"
  shows "priv_get_loader n ip ik lp lk args ndim split s = (s, Inl e)"
  using assms by (simp add: priv_get_loader_def prog_simps)

text \<open>
  Claim C10. Once the label transform is chosen, \<^verbatim>\<open>_get_loader\<close> on a namespace of the
  training parser raises the ValueError for 2d data exactly when the patch shape has a
  length other than 2 and a first entry other than 1, and otherwise returns its loaders
  (so a first entry of 1 is accepted with any length and a length of 2 with any entries);
  for 3d data it raises exactly when the length is not 3; for any other \<open>ndim\<close> it raises
  the RuntimeError.
\<close>

theorem patch_shape_validation:
  assumes "parse_args p given = Inr args"
      and "p = train_2d_unet_parser \<or> p = train_3d_unet_parser"
      and "select_label_transform args ndim = Inr t"
      and "getattr args ''patch_shape'' = Inr (PyInts shape)"
  shows
    "(ndim = 2 \<longrightarrow>
        (snd (priv_get_loader n ip ik lp lk args ndim split s)
            = Inl (ValueError (InvalidPatchShape (PyInts shape) 2))
          \<longleftrightarrow> length shape \<noteq> 2 \<and> hd shape \<noteq> 1)
      \<and> ((\<exists>r. snd (priv_get_loader n ip ik lp lk args ndim split s) = Inr r)
          \<longleftrightarrow> length shape = 2 \<or> hd shape = 1))
   \<and> (ndim = 3 \<longrightarrow>
        (snd (priv_get_loader n ip ik lp lk args ndim split s)
            = Inl (ValueError (InvalidPatchShape (PyInts shape) 3))
          \<longleftrightarrow> length shape \<noteq> 3)
      \<and> ((\<exists>r. snd (priv_get_loader n ip ik lp lk args ndim split s) = Inr r)
          \<longleftrightarrow> length shape = 3))
   \<and> (ndim \<noteq> 2 \<and> ndim \<noteq> 3 \<longrightarrow>
        snd (priv_get_loader n ip ik lp lk args ndim split s) = Inl (RuntimeError (InvalidNdim ndim)))"
proof -
  from parsed_patch_shape[OF assms(1,2)] assms(4) have ne: "shape \<noteq> []" by auto
  from parsed_defined(1,2)[OF assms(1,2)] obtain b tf
    where b: "getattr args ''batch_size'' = Inr b" and tf: "getattr args ''train_fraction'' = Inr tf"
    by auto
  note run = priv_get_loader_after_mode[OF assms(3,4) b tf, of n ip ik lp lk split s]
  show ?thesis
    unfolding run validate_patch_shape_ints[OF ne]
    by (auto simp: Let_def)
qed



lemma parse_example:
  "shape \<noteq> [] \<Longrightarrow> validation \<noteq> Some [] \<Longrightarrow>
   parse_args train_2d_unet_parser (example_given mode shape validation)
     = Inr (example_args mode shape validation)"
  by (cases mode; cases validation)
     (simp_all add: parse_args_def training_parser_defs example_given_def example_args_def
        accepts_def parsed_value_def)

lemma select_label_transform_example_None:
  "select_label_transform (example_args None shape validation) ndim = Inr None"
  by (simp add: select_label_transform_def example_args_def getattr_def)

text \<open>
  The command line \<^verbatim>\<open>-i raw.h5 -l labels.h5 -b 1 -p 1 256 256\<close> of \<^verbatim>\<open>train_2d_unet\<close>: a
  patch shape of length 3 that is accepted for 2d data because its first entry is 1.
\<close>

theorem patch_shape_validation_witness:
  "parse_args train_2d_unet_parser (example_given None [1, 256, 256] None)
     = Inr (example_args None [1, 256, 256] None)
   \<and> select_label_transform (example_args None [1, 256, 256] None) 2 = Inr None
   \<and> getattr (example_args None [1, 256, 256] None) ''patch_shape'' = Inr (PyInts [1, 256, 256])
   \<and> (\<exists>r. snd (priv_get_loader 8 (PyStrs [''raw.h5'']) PyNone (PyStrs [''labels.h5'']) PyNone
                 (example_args None [1, 256, 256] None) 2 True []) = Inr r)"
proof -
  have p: "parse_args train_2d_unet_parser (example_given None [1, 256, 256] None)
     = Inr (example_args None [1, 256, 256] None)"
    by (rule parse_example) simp_all
  have m: "select_label_transform (example_args None [1, 256, 256] None) 2 = Inr None"
    by (rule select_label_transform_example_None)
  have g: "getattr (example_args None [1, 256, 256] None) ''patch_shape'' = Inr (PyInts [1, 256, 256])"
    by (simp add: example_args_def getattr_def)
  from patch_shape_validation[OF p _ m g, where n=8 and ip="PyStrs [''raw.h5'']" and ik=PyNone
      and lp="PyStrs [''labels.h5'']" and lk=PyNone and split=True and s="[]"]
  have "\<exists>r. snd (priv_get_loader 8 (PyStrs [''raw.h5'']) PyNone (PyStrs [''labels.h5'']) PyNone
                 (example_args None [1, 256, 256] None) 2 True []) = Inr r"
    by simp
  with p m g show ?thesis by blast
qed

text \<open>An unknown label mode never reaches the ValueError.\<close>

lemma unknown_label_mode:
  assumes "parse_args p given = Inr args"
      and "p = train_2d_unet_parser \<or> p = train_3d_unet_parser"
      and "getattr args ''label_mode'' = Inr mode"
      and "mode \<notin> {PyNone, PyStr ''affinities'', PyStr ''affinities_and_foreground'',
             PyStr ''boundaries'', PyStr ''boundaries_and_foreground'', PyStr ''foreground''}"
  shows "select_label_transform args ndim = Inl (AttributeError ''label_model'')"
  using assms(3,4) parsed_undefined(1)[OF assms(1,2)]
  by (simp add: select_label_transform_def)

lemma affinities_2d:
  assumes "parse_args train_2d_unet_parser given = Inr args"
      and "getattr args ''label_mode'' = Inr mode"
      and "mode = PyStr ''affinities'' \<or> mode = PyStr ''affinities_and_foreground''"
  shows "select_label_transform args ndim = Inl (AttributeError ''scale_factors'')"
proof -
  have "getattr args ''scale_factors'' = Inl (AttributeError ''scale_factors'')"
    by (simp add: getattr_parsed[OF assms(1)] training_parser_defs)
  with assms(2,3) show ?thesis
    by (auto simp: select_label_transform_def)
qed

text \<open>
  Claim C1, at the inputs where the code departs from it. With \<^verbatim>\<open>-m instances\<close>, a mode
  that is none of the five, \<^verbatim>\<open>_get_loader\<close> raises an AttributeError for \<^verbatim>\<open>label_model\<close>
  and not the ValueError that names the mode; with \<^verbatim>\<open>-m affinities\<close> under the parser of
  \<^verbatim>\<open>train_2d_unet\<close> it raises an AttributeError for \<^verbatim>\<open>scale_factors\<close> and selects no
  affinity transform.
\<close>

theorem unknown_label_mode_raises_AttributeError:
  "parse_args train_2d_unet_parser (example_given (Some ''instances'') [256, 256] None)
     = Inr (example_args (Some ''instances'') [256, 256] None)
   \<and> priv_get_loader 8 (PyStrs [''raw.h5'']) PyNone (PyStrs [''labels.h5'']) PyNone
        (example_args (Some ''instances'') [256, 256] None) 2 True []
     = ([], Inl (AttributeError ''label_model''))
   \<and> parse_args train_2d_unet_parser (example_given (Some ''affinities'') [256, 256] None)
     = Inr (example_args (Some ''affinities'') [256, 256] None)
   \<and> priv_get_loader 8 (PyStrs [''raw.h5'']) PyNone (PyStrs [''labels.h5'']) PyNone
        (example_args (Some ''affinities'') [256, 256] None) 2 True []
     = ([], Inl (AttributeError ''scale_factors''))"
proof -
  have 1: "select_label_transform (example_args (Some ''instances'') [256, 256] None) 2
             = Inl (AttributeError ''label_model'')"
    by (simp add: select_label_transform_def example_args_def getattr_def)
  have 2: "select_label_transform (example_args (Some ''affinities'') [256, 256] None) 2
             = Inl (AttributeError ''scale_factors'')"
    by (simp add: select_label_transform_def example_args_def getattr_def)
  show ?thesis
    by (simp add: parse_example priv_get_loader_mode_error[OF 1] priv_get_loader_mode_error[OF 2])
qed



lemma priv_get_loaders_validation:
  assumes "getattr args ''validation_inputs'' = Inr vi" and "vi \<noteq> PyNone"
      and "getattr args ''training_inputs'' = Inr ti"
      and "getattr args ''training_input_key'' = Inr tik"
      and "getattr args ''training_labels'' = Inr tlab"
      and "getattr args ''training_label_key'' = Inr tlabk"
      and "getattr args ''validation_key'' = Inl e"
  shows "priv_get_loaders n args ndim s =
     (case priv_get_loader n ti tik tlab tlabk args ndim False s of
        (s', Inl e') \<Rightarrow> (s', Inl e')
      | (s', Inr train_loader) \<Rightarrow> (s', Inl e))"
  using assms
  by (simp add: priv_get_loaders_def prog_simps)
     (simp add: then_do_def lift_def split: prod.splits sum.splits)

text \<open>
  Claim C8, as amended. On a namespace of the training parser with validation inputs,
  \<^verbatim>\<open>_get_loaders\<close> never returns: an exception of the training loader's construction
  is passed on, and once the training loader is built the read of \<^verbatim>\<open>args.validation_key\<close>
  raises an AttributeError in the state reached right after the training loader, that is
  before anything is constructed for validation. The parser defines
  \<^verbatim>\<open>validation_input_key\<close> and no \<^verbatim>\<open>validation_key\<close>. Hence a pair of loaders is returned
  only when the validation inputs are omitted.
\<close>

theorem validation_inputs_never_return:
  assumes "parse_args p given = Inr args"
      and "p = train_2d_unet_parser \<or> p = train_3d_unet_parser"
      and "getattr args ''validation_inputs'' = Inr vi" and "vi \<noteq> PyNone"
      and "getattr args ''training_inputs'' = Inr ti"
      and "getattr args ''training_input_key'' = Inr tik"
      and "getattr args ''training_labels'' = Inr tlab"
      and "getattr args ''training_label_key'' = Inr tlabk"
  shows
    "(\<exists>e. snd (priv_get_loaders n args ndim s) = Inl e)
   \<and> (\<forall>s' e. priv_get_loader n ti tik tlab tlabk args ndim False s = (s', Inl e)
          \<longrightarrow> priv_get_loaders n args ndim s = (s', Inl e))
   \<and> (\<forall>s' r. priv_get_loader n ti tik tlab tlabk args ndim False s = (s', Inr r)
          \<longrightarrow> priv_get_loaders n args ndim s = (s', Inl (AttributeError ''validation_key'')))
   \<and> ''validation_key'' \<notin> dest ` set p
   \<and> ''validation_input_key'' \<in> dest ` set p"
proof -
  note run = priv_get_loaders_validation[OF assms(3-8) parsed_undefined(2)[OF assms(1,2)],
      of n ndim s]
  have names: "''validation_key'' \<notin> dest ` set p \<and> ''validation_input_key'' \<in> dest ` set p"
    using assms(2) by (auto simp: training_parser_defs)
  show ?thesis
    unfolding run using names
    by (auto split: prod.splits sum.splits)
qed

text \<open>
  Claim C8 as stated fails: with validation inputs and the patch shape \<^verbatim>\<open>32 32 32\<close> for 2d
  data, \<^verbatim>\<open>_get_loaders\<close> raises the ValueError of the patch shape validation, not an
  AttributeError.
\<close>

theorem validation_inputs_ValueError:
  "parse_args train_2d_unet_parser (example_given None [32, 32, 32] (Some [''val.h5'']))
     = Inr (example_args None [32, 32, 32] (Some [''val.h5'']))
   \<and> getattr (example_args None [32, 32, 32] (Some [''val.h5''])) ''validation_inputs''
     = Inr (PyStrs [''val.h5''])
   \<and> priv_get_loaders 8 (example_args None [32, 32, 32] (Some [''val.h5''])) 2 []
     = ([], Inl (ValueError (InvalidPatchShape (PyInts [32, 32, 32]) 2)))"
proof -
  let ?args = "example_args None [32, 32, 32] (Some [''val.h5''])"
  have p: "parse_args train_2d_unet_parser (example_given None [32, 32, 32] (Some [''val.h5'']))
     = Inr ?args"
    by (rule parse_example) simp_all
  have vi: "getattr ?args ''validation_inputs'' = Inr (PyStrs [''val.h5''])"
    and ti: "getattr ?args ''training_inputs'' = Inr (PyStrs [''raw.h5''])"
    and tik: "getattr ?args ''training_input_key'' = Inr PyNone"
    and tlab: "getattr ?args ''training_labels'' = Inr (PyStrs [''labels.h5''])"
    and tlabk: "getattr ?args ''training_label_key'' = Inr PyNone"
    and ps: "getattr ?args ''patch_shape'' = Inr (PyInts [32, 32, 32])"
    and vk: "getattr ?args ''validation_key'' = Inl (AttributeError ''validation_key'')"
    by (simp_all add: example_args_def getattr_def)
  have l: "priv_get_loader 8 (PyStrs [''raw.h5'']) PyNone (PyStrs [''labels.h5'']) PyNone ?args 2 False []
           = ([], Inl (ValueError (InvalidPatchShape (PyInts [32, 32, 32]) 2)))"
    by (simp add: priv_get_loader_def prog_simps select_label_transform_example_None ps
        validate_patch_shape_ints)
  have "priv_get_loaders 8 ?args 2 []
     = ([], Inl (ValueError (InvalidPatchShape (PyInts [32, 32, 32]) 2)))"
    by (simp add: priv_get_loaders_validation[OF vi _ ti tik tlab tlabk vk] l)
  with p vi show ?thesis by simp
qed

text \<open>
  With the patch shape \<^verbatim>\<open>256 256\<close> the training dataset and loader are built, and the
  AttributeError follows.
\<close>

theorem validation_inputs_never_return_witness:
  "parse_args train_2d_unet_parser (example_given None [256, 256] (Some [''val.h5'']))
     = Inr (example_args None [256, 256] (Some [''val.h5'']))
   \<and> getattr (example_args None [256, 256] (Some [''val.h5''])) ''validation_inputs''
     = Inr (PyStrs [''val.h5''])
   \<and> PyStrs [''val.h5''] \<noteq> PyNone
   \<and> priv_get_loaders 8 (example_args None [256, 256] (Some [''val.h5''])) 2 []
     = ([Call_dataset (default_segmentation_dataset (PyStrs [''raw.h5'']) PyNone
           (PyStrs [''labels.h5'']) PyNone (PyInts [256, 256]) 2 None None),
         Call_loader (get_data_loader (default_segmentation_dataset (PyStrs [''raw.h5'']) PyNone
           (PyStrs [''labels.h5'']) PyNone (PyInts [256, 256]) 2 None None) (PyInt 1) True 8)],
        Inl (AttributeError ''validation_key''))"
proof -
  let ?args = "example_args None [256, 256] (Some [''val.h5''])"
  have p: "parse_args train_2d_unet_parser (example_given None [256, 256] (Some [''val.h5'']))
     = Inr ?args"
    by (rule parse_example) simp_all
  have vi: "getattr ?args ''validation_inputs'' = Inr (PyStrs [''val.h5''])"
    and ti: "getattr ?args ''training_inputs'' = Inr (PyStrs [''raw.h5''])"
    and tik: "getattr ?args ''training_input_key'' = Inr PyNone"
    and tlab: "getattr ?args ''training_labels'' = Inr (PyStrs [''labels.h5''])"
    and tlabk: "getattr ?args ''training_label_key'' = Inr PyNone"
    and ps: "getattr ?args ''patch_shape'' = Inr (PyInts [256, 256])"
    and b: "getattr ?args ''batch_size'' = Inr (PyInt 1)"
    and tf: "getattr ?args ''train_fraction'' = Inr (PyFloat 8 (-1))"
    by (simp_all add: example_args_def getattr_def)
  have l: "priv_get_loader 8 (PyStrs [''raw.h5'']) PyNone (PyStrs [''labels.h5'']) PyNone ?args 2 False []
     = ([Call_dataset (default_segmentation_dataset (PyStrs [''raw.h5'']) PyNone
           (PyStrs [''labels.h5'']) PyNone (PyInts [256, 256]) 2 None None),
         Call_loader (get_data_loader (default_segmentation_dataset (PyStrs [''raw.h5'']) PyNone
           (PyStrs [''labels.h5'']) PyNone (PyInts [256, 256]) 2 None None) (PyInt 1) True 8)],
        Inr (Single (get_data_loader (default_segmentation_dataset (PyStrs [''raw.h5'']) PyNone
           (PyStrs [''labels.h5'']) PyNone (PyInts [256, 256]) 2 None None) (PyInt 1) True 8)))"
    by (simp add: priv_get_loader_after_mode[OF select_label_transform_example_None ps b tf]
        validate_patch_shape_ints Let_def)
  from validation_inputs_never_return[OF p _ vi _ ti tik tlab tlabk, of 8 2 "[]"] l
  have "priv_get_loaders 8 ?args 2 []
     = ([Call_dataset (default_segmentation_dataset (PyStrs [''raw.h5'']) PyNone
           (PyStrs [''labels.h5'']) PyNone (PyInts [256, 256]) 2 None None),
         Call_loader (get_data_loader (default_segmentation_dataset (PyStrs [''raw.h5'']) PyNone
           (PyStrs [''labels.h5'']) PyNone (PyInts [256, 256]) 2 None None) (PyInt 1) True 8)],
        Inl (AttributeError ''validation_key''))"
    by simp
  with p vi show ?thesis by simp
qed



section \<open>The mitochondria experiment\<close>

lemma set_DATASETS: "set DATASETS = {''lucchi'', ''platy'', ''urocell''}"
  by (simp add: DATASETS_def)

text \<open>
  Claim C5. \<^verbatim>\<open>normalize_datasets\<close> returns exactly when every requested name is one of
  "lucchi", "platy", "urocell", and what it returns is the requested names in sorted order
  (sorted, with every name as often as it was requested); it raises exactly when some
  requested name is not one of the three, and then a ValueError that lists the requested
  names that are not.
\<close>

theorem normalize_datasets_sorted:
  "(normalize_datasets datasets = Inr r
      \<longleftrightarrow> set datasets \<subseteq> {''lucchi'', ''platy'', ''urocell''}
          \<and> sorted r \<and> mset r = mset datasets)
   \<and> (normalize_datasets datasets = Inl e
      \<longleftrightarrow> \<not> set datasets \<subseteq> {''lucchi'', ''platy'', ''urocell''}
          \<and> e = ValueError (UnknownDatasets
                  {d \<in> set datasets. d \<notin> {''lucchi'', ''platy'', ''urocell''}}
                  [''lucchi'', ''platy'', ''urocell'']))"
proof -
  have w: "set datasets - set DATASETS = {d \<in> set datasets. d \<notin> {''lucchi'', ''platy'', ''urocell''}}"
    unfolding set_DATASETS by blast
  have e: "set datasets - set DATASETS = {} \<longleftrightarrow> set datasets \<subseteq> {''lucchi'', ''platy'', ''urocell''}"
    unfolding set_DATASETS by blast
  have s: "sorted r \<and> mset r = mset datasets \<longleftrightarrow> r = sort datasets" for r
    using properties_for_sort[of r datasets] by auto
  show ?thesis
    unfolding normalize_datasets_def Let_def w[symmetric]
    using e s by (auto simp: DATASETS_def)
qed



lemma require_ds_platy:
  "require_ds env ''platy'' s = (s @ [Makedirs DATA_ROOT], Inl NotImplementedError)"
  by (simp add: require_ds_def prog_simps Let_def)

lemma require_ds_no_prepare:
  "require_ds env dataset s = (s', r) \<Longrightarrow> \<exists>evs. s' = s @ evs \<and> \<not> list_ex is_prepare evs"
  by (auto simp: require_ds_def then_do_def emit_def py_return_def py_raise_def Let_def
      split: if_splits)

lemma require_rfs_ds_present:
  assumes "int (length (glob env (os_path_join (out_folder strategy dataset) [''*.pkl'']))) = n_rfs"
  shows "require_rfs_ds env globals dataset n_rfs strategy s
          = (s @ [Makedirs (out_folder strategy dataset)], Inr ())"
  using assms by (simp add: require_rfs_ds_def Let_def prog_simps)

lemma require_rfs_ds_absent:
  assumes "int (length (glob env (os_path_join (out_folder strategy dataset) [''*.pkl'']))) \<noteq> n_rfs"
  shows "require_rfs_ds env globals dataset n_rfs strategy s =
     (let out = out_folder strategy dataset in
      case require_ds env dataset (s @ [Makedirs out]) of
        (s', Inl e) \<Rightarrow> (s', Inl e)
      | (s', Inr (paths, raw_key, label_key)) \<Rightarrow>
          (case global_attr globals ''n_rfs'' of
             Inl e \<Rightarrow> (s', Inl e)
           | Inr nf \<Rightarrow>
              (case global_attr globals ''n_threads'' of
                 Inl e \<Rightarrow> (s', Inl e)
               | Inr nt \<Rightarrow>
                  (s' @ [if strategy = ''vanilla'' then
                           Prepare_shallow2deep paths raw_key paths label_key
                             [64, 64, 64] [96, 128, 128] nf nt out 3
                             Normalize (ForegroundTransform 3) True
                         else
                           Prepare_shallow2deep_advanced paths raw_key paths label_key
                             [64, 64, 64] [96, 128, 128] nf nt 25 (PyFloat 5 (-2)) out 3
                             Normalize (ForegroundTransform 3) True strategy
                             (if strategy = ''worst_tiles'' then [(''tile_shape'', [16, 16, 16])] else [])],
                   Inr ()))))"
  using assms
  by (simp add: require_rfs_ds_def Let_def prog_simps)
     (auto simp: then_do_def lift_def emit_def split: prod.splits sum.splits)

lemma require_rfs_ds_absent_prepares:
  assumes "int (length (glob env (os_path_join (out_folder strategy dataset) [''*.pkl'']))) \<noteq> n_rfs"
      and "snd (require_rfs_ds env globals dataset n_rfs strategy s) = Inr ()"
  shows "list_ex is_prepare (drop (length s) (fst (require_rfs_ds env globals dataset n_rfs strategy s)))"
proof -
  obtain s' r where rd: "require_ds env dataset (s @ [Makedirs (out_folder strategy dataset)]) = (s', r)"
    by (cases "require_ds env dataset (s @ [Makedirs (out_folder strategy dataset)])")
  from require_ds_no_prepare[OF rd] obtain evs
    where s': "s' = s @ [Makedirs (out_folder strategy dataset)] @ evs" by auto
  show ?thesis
    using assms(2) unfolding require_rfs_ds_absent[OF assms(1)] Let_def rd s'
    by (auto split: sum.splits prod.splits)
qed

text \<open>
  Claim C2, as amended. \<^verbatim>\<open>require_rfs_ds\<close> returns without a preparation call exactly
  when the output folder \<^verbatim>\<open>rfs3d-<strategy>/<dataset>\<close> holds exactly \<open>n_rfs\<close> ".pkl"
  files. For any other count and the dataset "platy" it raises NotImplementedError after the
  two \<^verbatim>\<open>makedirs\<close>, with no preparation. For any other count and a dataset whose data
  \<^verbatim>\<open>require_ds\<close> provides, it makes one preparation call: the plain one for the strategy
  "vanilla", and for every other strategy the staged one with 25 forests per stage, a
  sample fraction of 0.05 per stage and the tile shape [16, 16, 16] for "worst_tiles" only.
\<close>

theorem require_rfs_ds_prepares:
  "((snd (require_rfs_ds env globals dataset n_rfs strategy s) = Inr ()
       \<and> \<not> list_ex is_prepare (drop (length s) (fst (require_rfs_ds env globals dataset n_rfs strategy s))))
      \<longleftrightarrow> int (length (glob env (os_path_join (out_folder strategy dataset) [''*.pkl'']))) = n_rfs)
   \<and> (int (length (glob env (os_path_join (out_folder strategy dataset) [''*.pkl'']))) \<noteq> n_rfs
        \<longrightarrow> dataset = ''platy''
        \<longrightarrow> require_rfs_ds env globals dataset n_rfs strategy s
             = (s @ [Makedirs (out_folder strategy dataset), Makedirs DATA_ROOT], Inl NotImplementedError))
   \<and> (int (length (glob env (os_path_join (out_folder strategy dataset) [''*.pkl'']))) \<noteq> n_rfs
        \<longrightarrow> require_ds env dataset (s @ [Makedirs (out_folder strategy dataset)])
              = (s', Inr (paths, raw_key, label_key))
        \<longrightarrow> global_attr globals ''n_rfs'' = Inr nf
        \<longrightarrow> global_attr globals ''n_threads'' = Inr nt
        \<longrightarrow> require_rfs_ds env globals dataset n_rfs strategy s
             = (s' @ [if strategy = ''vanilla'' then
                        Prepare_shallow2deep paths raw_key paths label_key
                          [64, 64, 64] [96, 128, 128] nf nt (out_folder strategy dataset) 3
                          Normalize (ForegroundTransform 3) True
                      else
                        Prepare_shallow2deep_advanced paths raw_key paths label_key
                          [64, 64, 64] [96, 128, 128] nf nt 25 (PyFloat 5 (-2))
                          (out_folder strategy dataset) 3
                          Normalize (ForegroundTransform 3) True strategy
                          (if strategy = ''worst_tiles'' then [(''tile_shape'', [16, 16, 16])] else [])],
                Inr ()))"
  (is "?A \<and> ?B \<and> ?C")
proof (intro conjI)
  show ?A
    using require_rfs_ds_absent_prepares[of env strategy dataset n_rfs globals s]
    by (auto simp: require_rfs_ds_present)
  show ?B
    by (auto simp: require_rfs_ds_absent Let_def require_ds_platy)
  show ?C
    by (auto simp: require_rfs_ds_absent Let_def)
qed

lemma example_sort:
  "sort [''/scratch/pape/s2d-mitochondria/urocell/fib1-0-0-0.h5'',
         ''/scratch/pape/s2d-mitochondria/urocell/fib1-1-0-3.h5'']
   = [''/scratch/pape/s2d-mitochondria/urocell/fib1-0-0-0.h5'',
      ''/scratch/pape/s2d-mitochondria/urocell/fib1-1-0-3.h5'']"
  by code_simp

lemma example_require_ds:
  "require_ds example_env ''urocell'' s
     = (s @ [Makedirs ''/scratch/pape/s2d-mitochondria'',
             Require_urocell_data ''/scratch/pape/s2d-mitochondria/urocell'' True],
        Inr ([''/scratch/pape/s2d-mitochondria/urocell/fib1-0-0-0.h5''], ''raw'', ''labels/mito''))"
  by (simp add: require_ds_def prog_simps Let_def DATA_ROOT_def os_path_join_def join2_def
      example_env_def example_sort)

text \<open>
  Claim C2 as stated fails for the dataset "platy": the folder holds no forest, 500 are
  asked for, and no preparation runs.
\<close>

theorem platy_not_prepared:
  "int (length (glob example_env (os_path_join (out_folder ''worst_tiles'' ''platy'') [''*.pkl''])))
     \<noteq> 500
   \<and> require_rfs_ds example_env example_globals ''platy'' 500 ''worst_tiles'' []
     = ([Makedirs ''/scratch/pape/s2d-mitochondria/rfs3d-worst_tiles/platy'',
         Makedirs ''/scratch/pape/s2d-mitochondria''],
        Inl NotImplementedError)"
proof -
  have n: "int (length (glob example_env (os_path_join (out_folder ''worst_tiles'' ''platy'') [''*.pkl''])))
     \<noteq> 500"
    by (simp add: example_env_def out_folder_def os_path_join_def join2_def DATA_ROOT_def)
  show ?thesis
    using n
    by (simp add: require_rfs_ds_absent[OF n] Let_def require_ds_platy)
       (simp add: out_folder_def os_path_join_def join2_def DATA_ROOT_def)
qed

text \<open>The same request for "urocell" runs the staged preparation on the first of the two files.\<close>

theorem require_rfs_ds_prepares_witness:
  "int (length (glob example_env (os_path_join (out_folder ''worst_tiles'' ''urocell'') [''*.pkl''])))
     \<noteq> 500
   \<and> require_rfs_ds example_env example_globals ''urocell'' 500 ''worst_tiles'' []
     = ([Makedirs ''/scratch/pape/s2d-mitochondria/rfs3d-worst_tiles/urocell'',
         Makedirs ''/scratch/pape/s2d-mitochondria'',
         Require_urocell_data ''/scratch/pape/s2d-mitochondria/urocell'' True,
         Prepare_shallow2deep_advanced
           [''/scratch/pape/s2d-mitochondria/urocell/fib1-0-0-0.h5''] ''raw''
           [''/scratch/pape/s2d-mitochondria/urocell/fib1-0-0-0.h5''] ''labels/mito''
           [64, 64, 64] [96, 128, 128] (PyInt 500) (PyInt 32) 25 (PyFloat 5 (-2))
           ''/scratch/pape/s2d-mitochondria/rfs3d-worst_tiles/urocell'' 3
           Normalize (ForegroundTransform 3) True ''worst_tiles''
           [(''tile_shape'', [16, 16, 16])]],
        Inr ())"
proof -
  have n: "int (length (glob example_env (os_path_join (out_folder ''worst_tiles'' ''urocell'') [''*.pkl''])))
     \<noteq> 500"
    by (simp add: example_env_def out_folder_def os_path_join_def join2_def DATA_ROOT_def)
  have nf: "global_attr example_globals ''n_rfs'' = Inr (PyInt 500)"
    and nt: "global_attr example_globals ''n_threads'' = Inr (PyInt 32)"
    by (simp_all add: global_attr_def example_globals_def getattr_def)
  have o: "out_folder ''worst_tiles'' ''urocell''
             = ''/scratch/pape/s2d-mitochondria/rfs3d-worst_tiles/urocell''"
    by (simp add: out_folder_def os_path_join_def join2_def DATA_ROOT_def)
  from require_rfs_ds_prepares[of example_env example_globals "''urocell''" 500 "''worst_tiles''" "[]"]
  have "require_ds example_env ''urocell'' ([] @ [Makedirs (out_folder ''worst_tiles'' ''urocell'')])
              = (s', Inr (paths, raw_key, label_key))
        \<Longrightarrow> require_rfs_ds example_env example_globals ''urocell'' 500 ''worst_tiles'' []
             = (s' @ [Prepare_shallow2deep_advanced paths raw_key paths label_key
                          [64, 64, 64] [96, 128, 128] (PyInt 500) (PyInt 32) 25 (PyFloat 5 (-2))
                          (out_folder ''worst_tiles'' ''urocell'') 3
                          Normalize (ForegroundTransform 3) True ''worst_tiles''
                          [(''tile_shape'', [16, 16, 16])]],
                Inr ())" for s' paths raw_key label_key
    using n nf nt by simp
  from this[OF example_require_ds] n show ?thesis
    by (simp add: o)
qed



section \<open>The self-training logger\<close>

lemma log_train_supervised_run:
  "log_train_supervised interval step loss x y pred tb =
     (if interval = 0 then (tb @ [Add_scalar ''train/supervised/loss'' loss step], Inl ZeroDivisionError)
      else if step mod interval = 0 then
        (tb @ [Add_scalar ''train/supervised/loss'' loss step,
               Add_image ''validation/supervised/input-labels-prediction''
                 (make_grid [NormalizedFirst x, First y, First pred] None 8) step], Inr ())
      else (tb @ [Add_scalar ''train/supervised/loss'' loss step], Inr ()))"
  by (simp add: log_train_supervised_def divisible_def priv_add_supervised_images_def prog_simps)

lemma log_train_unsupervised_run:
  "log_train_unsupervised interval step loss x1 x2 pred pseudo label_filter tb =
     (if interval = 0 then (tb @ [Add_scalar ''train/unsupervised/loss'' loss step], Inl ZeroDivisionError)
      else if step mod interval = 0 then
        (tb @ [Add_scalar ''train/unsupervised/loss'' loss step,
               Add_image ''validation/unsupervised/aug1-aug2-prediction-pseudolabels''
                 (make_grid ([NormalizedFirst x1, NormalizedFirst x2, First pred, First pseudo]
                    @ (case label_filter of None \<Rightarrow> [] | Some f \<Rightarrow> [First f])) (Some 2) 8) step],
         Inr ())
      else (tb @ [Add_scalar ''train/unsupervised/loss'' loss step], Inr ()))"
  by (cases label_filter)
     (simp_all add: log_train_unsupervised_def divisible_def priv_add_unsupervised_images_def
        prog_simps Let_def)

lemma log_validation_supervised_run:
  "log_validation_supervised interval step metric loss x y pred tb =
     (tb @ [Add_scalar ''validation/supervised/loss'' loss step,
            Add_scalar ''validation/supervised/metric'' metric step,
            Add_image ''validation/supervised/input-labels-prediction''
              (make_grid [NormalizedFirst x, First y, First pred] None 8) step], Inr ())"
  by (simp add: log_validation_supervised_def priv_add_supervised_images_def prog_simps)

lemma log_validation_unsupervised_run:
  "log_validation_unsupervised interval step metric loss x1 x2 pred pseudo label_filter tb =
     (tb @ [Add_scalar ''validation/unsupervised/loss'' loss step,
            Add_scalar ''validation/unsupervised/metric'' metric step,
            Add_image ''validation/unsupervised/aug1-aug2-prediction-pseudolabels''
              (make_grid ([NormalizedFirst x1, NormalizedFirst x2, First pred, First pseudo]
                 @ (case label_filter of None \<Rightarrow> [] | Some f \<Rightarrow> [First f])) (Some 2) 8) step],
      Inr ())"
  by (cases label_filter)
     (simp_all add: log_validation_unsupervised_def priv_add_unsupervised_images_def
        prog_simps Let_def)

text \<open>
  Claim C3. \<^verbatim>\<open>log_train_supervised\<close> and \<^verbatim>\<open>log_train_unsupervised\<close> add their loss scalar
  first on every call, and an image is added exactly when the interval is not zero and
  divides the step (with a zero interval the modulo raises after the scalar is added).
  \<^verbatim>\<open>log_validation_supervised\<close> and \<^verbatim>\<open>log_validation_unsupervised\<close> add the loss, the
  metric and the image on every call, whatever the step and the interval.
\<close>

theorem logger_image_interval:
  "(take (Suc (length tb)) (fst (log_train_supervised interval step loss x y pred tb))
      = tb @ [Add_scalar ''train/supervised/loss'' loss step]
    \<and> (list_ex is_image (drop (length tb) (fst (log_train_supervised interval step loss x y pred tb)))
         \<longleftrightarrow> interval \<noteq> 0 \<and> interval dvd step)
    \<and> (snd (log_train_supervised interval step loss x y pred tb) = Inr () \<longleftrightarrow> interval \<noteq> 0))
   \<and> (take (Suc (length tb)) (fst (log_train_unsupervised interval step loss x1 x2 pred pseudo label_filter tb))
      = tb @ [Add_scalar ''train/unsupervised/loss'' loss step]
    \<and> (list_ex is_image (drop (length tb)
            (fst (log_train_unsupervised interval step loss x1 x2 pred pseudo label_filter tb)))
         \<longleftrightarrow> interval \<noteq> 0 \<and> interval dvd step)
    \<and> (snd (log_train_unsupervised interval step loss x1 x2 pred pseudo label_filter tb) = Inr ()
         \<longleftrightarrow> interval \<noteq> 0))
   \<and> (\<exists>grid. log_validation_supervised interval step metric loss x y pred tb
        = (tb @ [Add_scalar ''validation/supervised/loss'' loss step,
                 Add_scalar ''validation/supervised/metric'' metric step,
                 Add_image ''validation/supervised/input-labels-prediction'' grid step], Inr ()))
   \<and> (\<exists>grid. log_validation_unsupervised interval step metric loss x1 x2 pred pseudo label_filter tb
        = (tb @ [Add_scalar ''validation/unsupervised/loss'' loss step,
                 Add_scalar ''validation/unsupervised/metric'' metric step,
                 Add_image ''validation/unsupervised/aug1-aug2-prediction-pseudolabels'' grid step],
           Inr ()))"
  unfolding log_train_supervised_run log_train_unsupervised_run
    log_validation_supervised_run log_validation_unsupervised_run
  by (simp add: mod_eq_0_iff_dvd)

end
